theory Spec2Isabelle
  imports Complex_Main
begin

section \<open>JavaScript values used by the utility module\<close>

text \<open>
  The module \<^verbatim>\<open>utils/getNearestStation.js\<close> computes with JavaScript numbers, strings,
  arrays and objects obtained from two JSON services.

  A finite double is the real number it denotes; signed zero and the infinities are not
  modelled. The arithmetic of the distance calculator and of the unit conversions is
  exact. The product that the distance label rounds to whole feet is rounded to a
  double first, as the code does. \<open>NaN\<close> is modelled, because the code produces it
  whenever an arithmetic operand is \<^verbatim>\<open>undefined\<close>. A property that may be absent from an
  object has an \<open>option\<close> type, \<open>None\<close> standing for \<^verbatim>\<open>undefined\<close>.
\<close>

datatype jsnum = Num real | NaN

fun js_add :: "jsnum \<Rightarrow> jsnum \<Rightarrow> jsnum" where
  "js_add (Num a) (Num b) = Num (a + b)"
| "js_add _ _ = NaN"

fun js_sub :: "jsnum \<Rightarrow> jsnum \<Rightarrow> jsnum" where
  "js_sub (Num a) (Num b) = Num (a - b)"
| "js_sub _ _ = NaN"

fun js_mul :: "jsnum \<Rightarrow> jsnum \<Rightarrow> jsnum" where
  "js_mul (Num a) (Num b) = Num (a * b)"
| "js_mul _ _ = NaN"

text \<open>
  Every division of the module has a non-zero literal as its divisor (2, 180, 60,
  1609.34, 111000); a zero divisor, which yields an infinity in JavaScript, is outside
  the idealisation and is mapped to \<open>NaN\<close>.
\<close>

fun js_div :: "jsnum \<Rightarrow> jsnum \<Rightarrow> jsnum" where
  "js_div (Num a) (Num b) = (if b = 0 then NaN else Num (a / b))"
| "js_div _ _ = NaN"

text \<open>The relational operators: a comparison with \<open>NaN\<close> is false.\<close>

fun js_lt :: "jsnum \<Rightarrow> jsnum \<Rightarrow> bool" where
  "js_lt (Num a) (Num b) = (a < b)"
| "js_lt _ _ = False"

fun js_le :: "jsnum \<Rightarrow> jsnum \<Rightarrow> bool" where
  "js_le (Num a) (Num b) = (a \<le> b)"
| "js_le _ _ = False"

text \<open>\<^verbatim>\<open>ToNumber\<close> of a possibly absent number: \<^verbatim>\<open>undefined\<close> becomes \<open>NaN\<close>.\<close>

fun ToNumber :: "jsnum option \<Rightarrow> jsnum" where
  "ToNumber None = NaN"
| "ToNumber (Some n) = n"

text \<open>
  \<^verbatim>\<open>ToBoolean\<close>: \<^verbatim>\<open>undefined\<close>, zero, \<open>NaN\<close> and the empty string are falsy.
\<close>

fun truthy_num :: "jsnum option \<Rightarrow> bool" where
  "truthy_num (Some (Num x)) = (x \<noteq> 0)"
| "truthy_num (Some NaN) = False"
| "truthy_num None = False"

fun truthy_str :: "string option \<Rightarrow> bool" where
  "truthy_str (Some s) = (s \<noteq> [])"
| "truthy_str None = False"

text \<open>\<^verbatim>\<open>a || b\<close> evaluates to \<open>a\<close> when \<open>a\<close> is truthy and to \<open>b\<close> otherwise.\<close>

definition js_or :: "('a \<Rightarrow> bool) \<Rightarrow> 'a \<Rightarrow> 'a \<Rightarrow> 'a" where
  "js_or truthy a b = (if truthy a then a else b)"

text \<open>\<^verbatim>\<open>xs[i]\<close> on an array: \<^verbatim>\<open>undefined\<close> when the index is out of range.\<close>

definition js_index :: "'a list \<Rightarrow> nat \<Rightarrow> 'a option" where
  "js_index xs i = (if i < length xs then Some (xs ! i) else None)"

text \<open>\<^verbatim>\<open>Array.prototype.join\<close> on an array of strings.\<close>

fun join :: "string \<Rightarrow> string list \<Rightarrow> string" where
  "join sep [] = []"
| "join sep [x] = x"
| "join sep (x # y # ys) = x @ sep @ join sep (y # ys)"

text \<open>
  \<^verbatim>\<open>Array.prototype.sort\<close> with a comparator. ECMAScript fixes the result for a
  consistent comparator: the stable ordering. The model is the stable insertion sort;
  a comparator result of \<open>NaN\<close> counts as zero, as \<^verbatim>\<open>SortCompare\<close> prescribes.
\<close>

definition SortCompare :: "('a \<Rightarrow> 'a \<Rightarrow> jsnum) \<Rightarrow> 'a \<Rightarrow> 'a \<Rightarrow> real" where
  "SortCompare comparefn x y = (case comparefn x y of NaN \<Rightarrow> 0 | Num v \<Rightarrow> v)"

fun sort_insert :: "('a \<Rightarrow> 'a \<Rightarrow> jsnum) \<Rightarrow> 'a \<Rightarrow> 'a list \<Rightarrow> 'a list" where
  "sort_insert comparefn x [] = [x]"
| "sort_insert comparefn x (y # ys) =
     (if 0 < SortCompare comparefn x y then y # sort_insert comparefn x ys else x # y # ys)"

definition Array_sort :: "('a \<Rightarrow> 'a \<Rightarrow> jsnum) \<Rightarrow> 'a list \<Rightarrow> 'a list" where
  "Array_sort comparefn xs = foldr (sort_insert comparefn) xs []"

text \<open>What the two \<^verbatim>\<open>try\<close> blocks can raise.\<close>

datatype js_error =
    FetchRejected
  | Error string
  | SyntaxError
  | TypeError

text \<open>
  The network. \<^verbatim>\<open>fetch\<close> either rejects or resolves to a response with its \<^verbatim>\<open>ok\<close>
  flag; \<^verbatim>\<open>response.json()\<close> either rejects or yields the parsed payload. A service is
  a function from the request to this outcome, so "every response" is "every such
  function".
\<close>

datatype 'a json_result = InvalidJson | Json 'a

datatype 'a fetch_result = NetworkFailure | Response bool "'a json_result"

section \<open>Distance calculator\<close>

fun Math_sin :: "jsnum \<Rightarrow> jsnum" where
  "Math_sin (Num x) = Num (sin x)"
| "Math_sin NaN = NaN"

fun Math_cos :: "jsnum \<Rightarrow> jsnum" where
  "Math_cos (Num x) = Num (cos x)"
| "Math_cos NaN = NaN"

fun Math_sqrt :: "jsnum \<Rightarrow> jsnum" where
  "Math_sqrt (Num x) = (if x < 0 then NaN else Num (sqrt x))"
| "Math_sqrt NaN = NaN"

definition atan2 :: "real \<Rightarrow> real \<Rightarrow> real" where
  "atan2 y x =
     (if 0 < x then arctan (y / x)
      else if x < 0 then (if 0 \<le> y then arctan (y / x) + pi else arctan (y / x) - pi)
      else if 0 < y then pi / 2
      else if y < 0 then - (pi / 2)
      else 0)"

fun Math_atan2 :: "jsnum \<Rightarrow> jsnum \<Rightarrow> jsnum" where
  "Math_atan2 (Num y) (Num x) = Num (atan2 y x)"
| "Math_atan2 _ _ = NaN"

definition Math_PI :: jsnum where
  "Math_PI = Num pi"

definition toRadians :: "jsnum \<Rightarrow> jsnum" where
  "toRadians degrees = js_mul degrees (js_div Math_PI (Num 180))"

definition calculateDistance :: "jsnum \<Rightarrow> jsnum \<Rightarrow> jsnum \<Rightarrow> jsnum \<Rightarrow> jsnum" where
  "calculateDistance lat1 lon1 lat2 lon2 =
     (let R = Num 3959;
          dLat = toRadians (js_sub lat2 lat1);
          dLon = toRadians (js_sub lon2 lon1);
          a = js_add
                (js_mul (Math_sin (js_div dLat (Num 2))) (Math_sin (js_div dLat (Num 2))))
                (js_mul
                  (js_mul
                    (js_mul (Math_cos (toRadians lat1)) (Math_cos (toRadians lat2)))
                    (Math_sin (js_div dLon (Num 2))))
                  (Math_sin (js_div dLon (Num 2))));
          c = js_mul (Num 2) (Math_atan2 (Math_sqrt a) (Math_sqrt (js_sub (Num 1) a)))
      in js_mul R c)"

section \<open>Address formatter\<close>

type_synonym osm_tags = "string \<rightharpoonup> string"

text \<open>\<^verbatim>\<open>if (v) parts.push(v)\<close>\<close>

definition push_if_truthy :: "string list \<Rightarrow> string option \<Rightarrow> string list" where
  "push_if_truthy parts v =
     (case v of None \<Rightarrow> parts | Some s \<Rightarrow> if truthy_str (Some s) then parts @ [s] else parts)"

definition formatAddress :: "osm_tags option \<Rightarrow> string option" where
  "formatAddress tags =
     (case tags of
        None \<Rightarrow> None
      | Some t \<Rightarrow>
          (let parts = [];
               parts = push_if_truthy parts (t ''addr:housenumber'');
               parts = push_if_truthy parts (t ''addr:street'');
               parts = push_if_truthy parts (t ''addr:city'')
           in if 0 < length parts then Some (join '', '' parts) else None))"

text \<open>
  The address formatter as the specification words it: the values of those of the three
  keys that are present in the mapping, in the fixed order, joined by a comma and a
  space; absent when none is present.
\<close>

definition address_keys :: "string list" where
  "address_keys = [''addr:housenumber'', ''addr:street'', ''addr:city'']"

definition formatAddress_spec :: "osm_tags option \<Rightarrow> string option" where
  "formatAddress_spec tags =
     (case tags of
        None \<Rightarrow> None
      | Some t \<Rightarrow>
          (let present = List.map_filter t address_keys
           in if present = [] then None else Some (join '', '' present)))"

text \<open>The value of a key, when the key is present with a non-empty value.\<close>

definition nonempty_value :: "osm_tags \<Rightarrow> string \<Rightarrow> string option" where
  "nonempty_value t k =
     (case t k of None \<Rightarrow> None | Some v \<Rightarrow> if v = [] then None else Some v)"

section \<open>Station fetcher\<close>

record osm_center =
  c_lat :: "jsnum option"
  c_lon :: "jsnum option"

record osm_element =
  el_id :: int
  el_lat :: "jsnum option"
  el_lon :: "jsnum option"
  el_center :: "osm_center option"
  el_tags :: "osm_tags option"

record overpass_data =
  op_elements :: "osm_element list option"

record station =
  st_id :: int
  st_lat :: "jsnum option"
  st_lng :: "jsnum option"
  st_name :: string
  st_brand :: "string option"
  st_operator :: "string option"
  st_address :: "string option"
  st_distance :: jsnum
  st_tags :: "osm_tags option"

text \<open>\<^verbatim>\<open>element.tags?.name\<close>: \<^verbatim>\<open>undefined\<close> when the element has no tags.\<close>

definition opt_tag :: "osm_tags option \<Rightarrow> string \<Rightarrow> string option" where
  "opt_tag tags k = (case tags of None \<Rightarrow> None | Some t \<Rightarrow> t k)"

text \<open>\<^verbatim>\<open>element.center?.lat\<close> and \<^verbatim>\<open>element.center?.lon\<close>.\<close>

definition opt_center :: "osm_center option \<Rightarrow> (osm_center \<Rightarrow> jsnum option) \<Rightarrow> jsnum option" where
  "opt_center center field = (case center of None \<Rightarrow> None | Some c \<Rightarrow> field c)"

text \<open>The callback of \<^verbatim>\<open>data.elements.map\<close>.\<close>

definition station_of_element :: "jsnum \<Rightarrow> jsnum \<Rightarrow> osm_element \<Rightarrow> station" where
  "station_of_element lat lng element =
     (let stationLat = js_or truthy_num (opt_center (el_center element) c_lat) (el_lat element);
          stationLon = js_or truthy_num (opt_center (el_center element) c_lon) (el_lon element);
          distance = calculateDistance lat lng (ToNumber stationLat) (ToNumber stationLon)
      in \<lparr> st_id = el_id element,
           st_lat = stationLat,
           st_lng = stationLon,
           st_name =
             (case js_or truthy_str
                     (js_or truthy_str (opt_tag (el_tags element) ''name'')
                                       (opt_tag (el_tags element) ''brand''))
                     (Some ''Gas Station'') of
                None \<Rightarrow> ''Gas Station''
              | Some n \<Rightarrow> n),
           st_brand = opt_tag (el_tags element) ''brand'',
           st_operator = opt_tag (el_tags element) ''operator'',
           st_address = formatAddress (el_tags element),
           st_distance = distance,
           st_tags = el_tags element \<rparr>)"

text \<open>
  The request: the bounding box that the query text embeds, for its node and its way
  clause alike.
\<close>

type_synonym overpass_query = "jsnum \<times> jsnum \<times> jsnum \<times> jsnum"

definition overpass_query :: "jsnum \<Rightarrow> jsnum \<Rightarrow> jsnum \<Rightarrow> overpass_query" where
  "overpass_query lat lng radius =
     (let radiusInDegrees = js_div radius (Num 111000)
      in (js_sub lat radiusInDegrees, js_sub lng radiusInDegrees,
          js_add lat radiusInDegrees, js_add lng radiusInDegrees))"

text \<open>The default parameter \<^verbatim>\<open>radius = 5000\<close>: an omitted argument is 5000.\<close>

definition default_radius :: "jsnum option \<Rightarrow> jsnum" where
  "default_radius radius = (case radius of None \<Rightarrow> Num 5000 | Some r \<Rightarrow> r)"

text \<open>The body of the \<^verbatim>\<open>try\<close> block: \<open>Inl\<close> is a raised error.\<close>

definition fetchNearbyGasStations_try ::
  "(overpass_query \<Rightarrow> overpass_data fetch_result) \<Rightarrow> jsnum \<Rightarrow> jsnum \<Rightarrow> jsnum option
     \<Rightarrow> js_error + station list" where
  "fetchNearbyGasStations_try fetch lat lng radius =
     (case fetch (overpass_query lat lng (default_radius radius)) of
        NetworkFailure \<Rightarrow> Inl FetchRejected
      | Response ok body \<Rightarrow>
          if \<not> ok then Inl (Error ''Failed to fetch gas stations'')
          else
            (case body of
               InvalidJson \<Rightarrow> Inl SyntaxError
             | Json data \<Rightarrow>
                 (case op_elements data of
                    None \<Rightarrow> Inl TypeError
                  | Some elements \<Rightarrow>
                      (let stations = map (station_of_element lat lng) elements
                       in Inr (Array_sort (\<lambda>a b. js_sub (st_distance a) (st_distance b))
                                 stations)))))"

text \<open>With its \<^verbatim>\<open>catch\<close> clause: any error becomes the empty array.\<close>

definition fetchNearbyGasStations ::
  "(overpass_query \<Rightarrow> overpass_data fetch_result) \<Rightarrow> jsnum \<Rightarrow> jsnum \<Rightarrow> jsnum option
     \<Rightarrow> station list" where
  "fetchNearbyGasStations fetch lat lng radius =
     (case fetchNearbyGasStations_try fetch lat lng radius of
        Inl error \<Rightarrow> []
      | Inr stations \<Rightarrow> stations)"

section \<open>Nearest selector\<close>

text \<open>
  \<open>None\<close> as the first argument is a \<^verbatim>\<open>null\<close> or \<^verbatim>\<open>undefined\<close> array; \<open>None\<close> as the
  result is \<^verbatim>\<open>null\<close>.
\<close>

definition findNearestStation :: "'s list option \<Rightarrow> 'u \<Rightarrow> 's option" where
  "findNearestStation stations userLocation =
     (case stations of
        None \<Rightarrow> None
      | Some xs \<Rightarrow> if length xs = 0 then None else js_index xs 0)"

section \<open>Route fetcher\<close>

record location =
  loc_lat :: jsnum
  loc_lng :: jsnum

text \<open>
  A coordinate of the GeoJSON geometry is a two-element array; \<open>(a, b)\<close> is the array with
  \<^verbatim>\<open>coord[0] = a\<close> and \<^verbatim>\<open>coord[1] = b\<close>, both for the response and for the returned path.
\<close>

record osrm_geometry =
  g_coordinates :: "(jsnum \<times> jsnum) list option"

record 'step osrm_leg =
  leg_steps :: "'step list option"

record 'step osrm_route =
  osrm_geometry :: "osrm_geometry option"
  osrm_distance :: jsnum
  osrm_duration :: jsnum
  osrm_legs :: "'step osrm_leg list option"

record 'step osrm_data =
  d_code :: "string option"
  d_routes :: "'step osrm_route list option"

record 'step route =
  r_coordinates :: "(jsnum \<times> jsnum) list"
  r_distance :: jsnum
  r_duration :: jsnum
  r_steps :: "'step list"

text \<open>
  An absent \<^verbatim>\<open>distance\<close> or \<^verbatim>\<open>duration\<close> is represented by \<open>NaN\<close>: the code only divides
  them, and \<^verbatim>\<open>undefined / 60\<close> is \<open>NaN\<close> as \<^verbatim>\<open>NaN / 60\<close> is.

  The request: the four numbers of the URL path, \<^verbatim>\<open>start.lng,start.lat;end.lng,end.lat\<close>.
\<close>

type_synonym route_request = "jsnum \<times> jsnum \<times> jsnum \<times> jsnum"

definition route_request :: "location \<Rightarrow> location \<Rightarrow> route_request" where
  "route_request start dest = (loc_lng start, loc_lat start, loc_lng dest, loc_lat dest)"

text \<open>\<^verbatim>\<open>route.legs[0]?.steps || []\<close>, for a \<^verbatim>\<open>legs\<close> array.\<close>

definition first_leg_steps :: "'step osrm_leg list \<Rightarrow> 'step list" where
  "first_leg_steps legs =
     (case js_index legs 0 of
        None \<Rightarrow> []
      | Some leg \<Rightarrow> (case leg_steps leg of None \<Rightarrow> [] | Some steps \<Rightarrow> steps))"

text \<open>
  The body of the \<^verbatim>\<open>try\<close> block. The guard
  \<^verbatim>\<open>data.code !== 'Ok' || !data.routes || data.routes.length === 0\<close> raises one and the same
  error in its three cases; an absent \<^verbatim>\<open>code\<close> differs from \<^verbatim>\<open>'Ok'\<close>. Reading a property of
  \<^verbatim>\<open>undefined\<close> (\<^verbatim>\<open>route.geometry.coordinates\<close>, \<^verbatim>\<open>route.legs[0]\<close>) raises a \<^verbatim>\<open>TypeError\<close>.
\<close>

definition fetchRoute_try ::
  "(route_request \<Rightarrow> 'step osrm_data fetch_result) \<Rightarrow> location \<Rightarrow> location
     \<Rightarrow> js_error + 'step route" where
  "fetchRoute_try fetch start dest =
     (case fetch (route_request start dest) of
        NetworkFailure \<Rightarrow> Inl FetchRejected
      | Response ok body \<Rightarrow>
          if \<not> ok then Inl (Error ''Failed to fetch route'')
          else
            (case body of
               InvalidJson \<Rightarrow> Inl SyntaxError
             | Json data \<Rightarrow>
                 (case d_routes data of
                    None \<Rightarrow> Inl (Error ''No route found'')
                  | Some routes \<Rightarrow>
                      if d_code data \<noteq> Some ''Ok'' \<or> length routes = 0
                      then Inl (Error ''No route found'')
                      else
                        (case js_index routes 0 of
                           None \<Rightarrow> Inl TypeError
                         | Some route \<Rightarrow>
                             (case osrm_geometry route of
                                None \<Rightarrow> Inl TypeError
                              | Some geometry \<Rightarrow>
                                  (case g_coordinates geometry of
                                     None \<Rightarrow> Inl TypeError
                                   | Some coordinates \<Rightarrow>
                                       (case osrm_legs route of
                                          None \<Rightarrow> Inl TypeError
                                        | Some legs \<Rightarrow>
                                            Inr \<lparr> r_coordinates =
                                                    map (\<lambda>coord. (snd coord, fst coord)) coordinates,
                                                  r_distance =
                                                    js_div (osrm_distance route) (Num 1609.34),
                                                  r_duration =
                                                    js_div (osrm_duration route) (Num 60),
                                                  r_steps = first_leg_steps legs \<rparr>)))))))"

definition fetchRoute ::
  "(route_request \<Rightarrow> 'step osrm_data fetch_result) \<Rightarrow> location \<Rightarrow> location
     \<Rightarrow> 'step route option" where
  "fetchRoute fetch start dest =
     (case fetchRoute_try fetch start dest of
        Inl error \<Rightarrow> None
      | Inr route \<Rightarrow> Some route)"

section \<open>Rounding to a double\<close>

text \<open>
  The distance label rounds a product to whole feet, so the rounding of that product to
  a double decides which integer is printed. Round-to-nearest, ties to even, on the grid
  of doubles: a number in the binade \<open>[2\<^sup>k, 2\<^sup>k\<^sup>+\<^sup>1)\<close> is rounded to a multiple of
  \<open>2\<^sup>k\<^sup>-\<^sup>5\<^sup>2\<close>, and below \<open>2\<^sup>-\<^sup>1\<^sup>0\<^sup>2\<^sup>2\<close> to a multiple of \<open>2\<^sup>-\<^sup>1\<^sup>0\<^sup>7\<^sup>4\<close>. Overflow to
  an infinity is not modelled. A decimal literal of the source denotes the double
  nearest to it.
\<close>

definition round_half_even :: "real \<Rightarrow> int" where
  "round_half_even q =
     (let f = \<lfloor>q\<rfloor>
      in if q - of_int f < 1 / 2 then f
         else if 1 / 2 < q - of_int f then f + 1
         else if even f then f else f + 1)"

definition binade :: "real \<Rightarrow> int" where
  "binade x = max \<lfloor>log 2 \<bar>x\<bar>\<rfloor> (- 1022)"

definition round_double :: "real \<Rightarrow> real" where
  "round_double x =
     (if x = 0 then 0
      else (let ulp = 2 powi (binade x - 52)
            in of_int (round_half_even (x / ulp)) * ulp))"

text \<open>The product of two doubles, as the double that \<^verbatim>\<open>a * b\<close> evaluates to.\<close>

fun js_mul_double :: "jsnum \<Rightarrow> jsnum \<Rightarrow> jsnum" where
  "js_mul_double (Num a) (Num b) = Num (round_double (a * b))"
| "js_mul_double _ _ = NaN"

section \<open>Presentation formatter\<close>

text \<open>
  \<^verbatim>\<open>calculateETA\<close> reads the wall clock and the locale and is not modelled.

  \<^verbatim>\<open>Math.round\<close> rounds to the nearest integer, a tie towards positive infinity.
\<close>

fun Math_round :: "jsnum \<Rightarrow> jsnum" where
  "Math_round (Num x) = Num (of_int \<lfloor>x + 1 / 2\<rfloor>)"
| "Math_round NaN = NaN"

definition digit :: "nat \<Rightarrow> char" where
  "digit d = ''0123456789'' ! d"

fun show_nat :: "nat \<Rightarrow> string" where
  "show_nat n = (if n < 10 then [digit n] else show_nat (n div 10) @ [digit (n mod 10)])"

declare show_nat.simps [simp del]

text \<open>
  The string of a number in a template literal (\<^verbatim>\<open>Number::toString\<close>). An integer of
  magnitude below \<open>2\<^sup>5\<^sup>3\<close> prints as its decimal digits. Every other finite value
  prints its shortest round-trip digits, in positional or exponent notation; that
  printing depends on the binary representation and is the parameter \<open>sci\<close>.
\<close>

fun Number_toString :: "(real \<Rightarrow> string) \<Rightarrow> jsnum \<Rightarrow> string" where
  "Number_toString sci NaN = ''NaN''"
| "Number_toString sci (Num x) =
     (if x = of_int \<lfloor>x\<rfloor> \<and> \<bar>x\<bar> < 2 ^ 53
      then (if x < 0 then ''-'' @ show_nat (nat (- \<lfloor>x\<rfloor>)) else show_nat (nat \<lfloor>x\<rfloor>))
      else sci x)"

text \<open>
  \<^verbatim>\<open>Number.prototype.toFixed\<close> with \<open>f\<close> fraction digits, as ECMAScript words it: the
  sign is split off, \<open>n\<close> is the integer nearest to \<open>x * 10\<^sup>f\<close> (the larger one on a
  tie), its digits are padded with zeros to \<open>f + 1\<close> places and the point is put before
  the last \<open>f\<close> of them. ECMAScript defines \<open>n\<close> on the exact value of the double, so
  nothing is rounded here; a magnitude of \<open>10\<^sup>2\<^sup>1\<close> or more prints as \<open>sci\<close> does.
\<close>

fun toFixed :: "(real \<Rightarrow> string) \<Rightarrow> jsnum \<Rightarrow> nat \<Rightarrow> string" where
  "toFixed sci NaN f = ''NaN''"
| "toFixed sci (Num x0) f =
     (let s = (if x0 < 0 then ''-'' else []);
          x = (if x0 < 0 then - x0 else x0)
      in if 10 ^ 21 \<le> x then s @ sci x
         else
           (let n = nat \<lfloor>x * 10 ^ f + 1 / 2\<rfloor>;
                m = show_nat n;
                m = (if f \<noteq> 0
                     then (let k = length m;
                               m = (if k \<le> f then replicate (f + 1 - k) CHR ''0'' @ m else m);
                               k = (if k \<le> f then f + 1 else k)
                           in take (k - f) m @ ''.'' @ drop (k - f) m)
                     else m)
            in s @ m))"

text \<open>
  The literal \<^verbatim>\<open>0.1\<close> is the double nearest to 0.1; 5280 is a double. The product
  \<^verbatim>\<open>miles * 5280\<close> is a double before \<^verbatim>\<open>Math.round\<close> sees it.
\<close>

definition formatDistance :: "(real \<Rightarrow> string) \<Rightarrow> jsnum \<Rightarrow> string" where
  "formatDistance sci miles =
     (if js_lt miles (Num (round_double 0.1))
      then Number_toString sci (Math_round (js_mul_double miles (Num 5280))) @ '' ft''
      else toFixed sci miles 1 @ '' mi'')"

section \<open>Vocabulary of the claims about responses\<close>

text \<open>
  The failure categories of the specification, as properties of what a service
  returned: a transport failure (the request is rejected or the status is not a
  success), a parse failure (the body of a successful response is not JSON) and a
  malformed payload (a JSON payload that lacks a property the function dereferences).
\<close>

definition transport_success :: "'a fetch_result \<Rightarrow> bool" where
  "transport_success r = (case r of NetworkFailure \<Rightarrow> False | Response ok body \<Rightarrow> ok)"

definition parse_failure :: "'a fetch_result \<Rightarrow> bool" where
  "parse_failure r =
     (case r of
        NetworkFailure \<Rightarrow> False
      | Response ok body \<Rightarrow> ok \<and> (case body of InvalidJson \<Rightarrow> True | Json d \<Rightarrow> False))"

text \<open>The payload of a successful, parsed response.\<close>

definition payload :: "'a fetch_result \<Rightarrow> 'a option" where
  "payload r =
     (case r of
        NetworkFailure \<Rightarrow> None
      | Response ok body \<Rightarrow>
          if ok then (case body of InvalidJson \<Rightarrow> None | Json d \<Rightarrow> Some d) else None)"

definition malformed_overpass :: "overpass_data fetch_result \<Rightarrow> bool" where
  "malformed_overpass r = (case payload r of None \<Rightarrow> False | Some d \<Rightarrow> op_elements d = None)"

text \<open>
  A route has the shape the routing boundary documents when it carries
  \<^verbatim>\<open>geometry.coordinates\<close> and a \<^verbatim>\<open>legs\<close> collection.
\<close>

definition route_shape_ok :: "'step osrm_route \<Rightarrow> bool" where
  "route_shape_ok route =
     ((case osrm_geometry route of None \<Rightarrow> False | Some g \<Rightarrow> g_coordinates g \<noteq> None)
      \<and> osrm_legs route \<noteq> None)"



text \<open>
  A routing payload is malformed, for \<^verbatim>\<open>fetchRoute\<close>, when it has no \<^verbatim>\<open>code\<close>, no
  \<^verbatim>\<open>routes\<close>, or a first route of another shape. A routing response is well-formed when
  a successful transport carries a JSON payload that is not malformed.
\<close>

definition malformed_osrm :: "'step osrm_data fetch_result \<Rightarrow> bool" where
  "malformed_osrm r =
     (case payload r of
        None \<Rightarrow> False
      | Some d \<Rightarrow>
          d_code d = None \<or>
          (case d_routes d of
             None \<Rightarrow> True
           | Some routes \<Rightarrow> (case routes of [] \<Rightarrow> False | route # others \<Rightarrow> \<not> route_shape_ok route)))"


section \<open>Example responses\<close>

text \<open>
  Three Overpass elements around the query coordinate \<open>(45, 10)\<close>: a node a quarter of
  a great circle away, an element that carries no coordinate at all, and a node at the
  query coordinate itself; and a way whose centroid lies on the equator.
\<close>

definition far_node :: osm_element where
  "far_node = \<lparr> el_id = 1, el_lat = Some (Num (- 45)), el_lon = Some (Num 10),
                el_center = None, el_tags = None \<rparr>"

definition bare_element :: osm_element where
  "bare_element = \<lparr> el_id = 2, el_lat = None, el_lon = None,
                    el_center = None, el_tags = None \<rparr>"

definition near_node :: osm_element where
  "near_node = \<lparr> el_id = 3, el_lat = Some (Num 45), el_lon = Some (Num 10),
                 el_center = None, el_tags = None \<rparr>"

definition near_way :: osm_element where
  "near_way = \<lparr> el_id = 4, el_lat = None, el_lon = None,
                el_center = Some \<lparr> c_lat = Some (Num 45), c_lon = Some (Num 10) \<rparr>,
                el_tags = Some [''brand'' \<mapsto> ''Shell''] \<rparr>"

definition equator_way :: osm_element where
  "equator_way = \<lparr> el_id = 5, el_lat = None, el_lon = None,
                   el_center = Some \<lparr> c_lat = Some (Num 0), c_lon = Some (Num 10) \<rparr>,
                   el_tags = None \<rparr>"

text \<open>An Overpass service that answers every query with the given elements.\<close>

definition overpass_returning ::
  "osm_element list \<Rightarrow> overpass_query \<Rightarrow> overpass_data fetch_result" where
  "overpass_returning elements query = Response True (Json \<lparr> op_elements = Some elements \<rparr>)"

text \<open>
  A routing service that answers with the given status code and routes, and three
  routes: one of the documented shape, with two legs, one without \<^verbatim>\<open>legs\<close> and one
  without \<^verbatim>\<open>geometry\<close>.
\<close>

definition osrm_returning ::
  "string \<Rightarrow> string osrm_route list \<Rightarrow> route_request \<Rightarrow> string osrm_data fetch_result" where
  "osrm_returning status routes request =
     Response True (Json \<lparr> d_code = Some status, d_routes = Some routes \<rparr>)"



definition route_without_geometry :: "string osrm_route" where
  "route_without_geometry =
     \<lparr> osrm_geometry = None, osrm_distance = Num 3218.68, osrm_duration = Num 90,
       osrm_legs = Some [] \<rparr>"

section \<open>Theorems\<close>

subsection \<open>Numbers\<close>

lemma js_mul_commute: "js_mul x y = js_mul y x"
  by (cases x; cases y) simp_all

lemma js_sub_NaN [simp]: "js_sub x NaN = NaN" "js_sub NaN y = NaN"
  by (cases x, simp_all)

lemma js_le_NaN [simp]: "js_le x NaN = False" "js_le NaN y = False"
  by (cases x, simp_all)

lemma js_le_trans: "js_le x y \<Longrightarrow> js_le y z \<Longrightarrow> js_le x z"
  by (cases x; cases y; cases z) auto

lemma js_le_total: "x \<noteq> NaN \<Longrightarrow> y \<noteq> NaN \<Longrightarrow> \<not> js_le x y \<Longrightarrow> js_le y x"
  by (cases x; cases y) auto

subsection \<open>Distance calculator\<close>

lemma half_angle_neg:
  "sin ((x - y) * pi / 360) = - sin ((y - x) * pi / 360)" for x y :: real
proof -
  have "(x - y) * pi / 360 = - ((y - x) * pi / 360)"
    by (simp add: field_simps)
  then show ?thesis
    by (simp only: sin_minus)
qed

text \<open>
  The squared sine of half a difference does not change when the difference is
  reversed: subtraction only changes sign, the sine is odd, and the sign cancels in the
  product.
\<close>

lemma sin_half_square_swap:
  "js_mul (Math_sin (js_div (toRadians (js_sub x y)) (Num 2)))
          (Math_sin (js_div (toRadians (js_sub x y)) (Num 2))) =
   js_mul (Math_sin (js_div (toRadians (js_sub y x)) (Num 2)))
          (Math_sin (js_div (toRadians (js_sub y x)) (Num 2)))"
proof (cases x; cases y)
  fix a b
  assume "x = Num a" "y = Num b"
  then show ?thesis
    using half_angle_neg [of a b] by (simp add: toRadians_def Math_PI_def)
qed (simp_all add: toRadians_def Math_PI_def)

lemma sin_half_square_swap_scaled:
  "js_mul (js_mul p (Math_sin (js_div (toRadians (js_sub x y)) (Num 2))))
          (Math_sin (js_div (toRadians (js_sub x y)) (Num 2))) =
   js_mul (js_mul p (Math_sin (js_div (toRadians (js_sub y x)) (Num 2))))
          (Math_sin (js_div (toRadians (js_sub y x)) (Num 2)))"
proof (cases x; cases y; cases p)
  fix a b q
  assume "x = Num a" "y = Num b" "p = Num q"
  then show ?thesis
    using half_angle_neg [of a b] by (simp add: toRadians_def Math_PI_def)
qed (simp_all add: toRadians_def Math_PI_def)

text \<open>
  Claim C8. The distance calculator is symmetric: the distance from the first
  coordinate to the second equals the distance from the second to the first, for all
  four numbers (\<open>NaN\<close> included, where both results are \<open>NaN\<close>).
\<close>

theorem calculateDistance_symmetric:
  "calculateDistance lat1 lon1 lat2 lon2 = calculateDistance lat2 lon2 lat1 lon1"
  unfolding calculateDistance_def Let_def
  by (simp only: sin_half_square_swap [of lat2 lat1]
        sin_half_square_swap_scaled [of _ lon2 lon1]
        js_mul_commute [of "Math_cos (toRadians lat1)" "Math_cos (toRadians lat2)"])

text \<open>An absent coordinate makes the distance \<open>NaN\<close>.\<close>

lemma calculateDistance_NaN:
  "calculateDistance lat lng NaN lon2 = NaN"
  "calculateDistance lat lng lat2 NaN = NaN"
  by (cases lat; cases lng; cases lat2; cases lon2;
      simp add: calculateDistance_def toRadians_def Math_PI_def Let_def)+

text \<open>
  On four numbers the distance is a number: the haversine term is a convex combination
  of two squares, so it lies between 0 and 1 and both square roots are defined.
\<close>

lemma cos_product: "cos (p + q) * cos (p - q) = (cos p)\<^sup>2 - (sin q)\<^sup>2" for p q :: real
proof -
  have "cos (p + q) * cos (p - q) = (cos p * cos q)\<^sup>2 - (sin p * sin q)\<^sup>2"
    by (simp add: cos_add cos_diff power2_eq_square algebra_simps)
  also have "\<dots> = (cos p)\<^sup>2 * (1 - (sin q)\<^sup>2) - (1 - (cos p)\<^sup>2) * (sin q)\<^sup>2"
    by (simp add: power_mult_distrib cos_squared_eq [of q] sin_squared_eq [of p])
  also have "\<dots> = (cos p)\<^sup>2 - (sin q)\<^sup>2"
    by (simp add: algebra_simps)
  finally show ?thesis .
qed

lemma haversine_convex:
  fixes u v l :: real
  shows "(sin ((v - u) / 2))\<^sup>2 + cos u * cos v * (sin l)\<^sup>2 =
         (1 - (sin l)\<^sup>2) * (sin ((v - u) / 2))\<^sup>2 + (sin l)\<^sup>2 * (cos ((u + v) / 2))\<^sup>2"
proof -
  have "cos u * cos v = cos ((u + v) / 2 + (u - v) / 2) * cos ((u + v) / 2 - (u - v) / 2)"
    by (simp add: field_simps)
  also have "\<dots> = (cos ((u + v) / 2))\<^sup>2 - (sin ((u - v) / 2))\<^sup>2"
    by (rule cos_product)
  also have "(sin ((u - v) / 2))\<^sup>2 = (sin ((v - u) / 2))\<^sup>2"
  proof -
    have "(u - v) / 2 = - ((v - u) / 2)" by argo
    then show ?thesis by (simp only: sin_minus power2_minus)
  qed
  finally have product: "cos u * cos v = (cos ((u + v) / 2))\<^sup>2 - (sin ((v - u) / 2))\<^sup>2" .
  show ?thesis
    unfolding product by (simp add: algebra_simps)
qed

lemma haversine_range:
  fixes u v l :: real
  shows "0 \<le> (sin ((v - u) / 2))\<^sup>2 + cos u * cos v * (sin l)\<^sup>2 \<and>
         (sin ((v - u) / 2))\<^sup>2 + cos u * cos v * (sin l)\<^sup>2 \<le> 1"
proof -
  let ?h = "(sin l)\<^sup>2" and ?s = "(sin ((v - u) / 2))\<^sup>2" and ?c = "(cos ((u + v) / 2))\<^sup>2"
  have h: "0 \<le> ?h" "?h \<le> 1" by (simp_all add: abs_square_le_1)
  have s: "0 \<le> ?s" "?s \<le> 1" by (simp_all add: abs_square_le_1)
  have c: "0 \<le> ?c" "?c \<le> 1" by (simp_all add: abs_square_le_1)
  have low1: "0 \<le> (1 - ?h) * ?s" and low2: "0 \<le> ?h * ?c"
    using h s c by simp_all
  have up1: "(1 - ?h) * ?s \<le> 1 - ?h"
    using mult_left_mono [of ?s 1 "1 - ?h"] h s by simp
  have up2: "?h * ?c \<le> ?h"
    using mult_left_mono [of ?c 1 ?h] h c by simp
  have "0 \<le> (1 - ?h) * ?s + ?h * ?c"
    using low1 low2 by linarith
  moreover have "(1 - ?h) * ?s + ?h * ?c \<le> 1"
    using up1 up2 by linarith
  ultimately show ?thesis
    unfolding haversine_convex by simp
qed

lemma calculateDistance_is_number:
  "\<exists>d. calculateDistance (Num lat1) (Num lon1) (Num lat2) (Num lon2) = Num d"
proof -
  let ?u = "lat1 * (pi / 180)" and ?v = "lat2 * (pi / 180)"
  let ?l = "(lon2 - lon1) * (pi / 180) / 2"
  have r: "0 \<le> (sin ((?v - ?u) / 2))\<^sup>2 + cos ?u * cos ?v * (sin ?l)\<^sup>2 \<and>
           (sin ((?v - ?u) / 2))\<^sup>2 + cos ?u * cos ?v * (sin ?l)\<^sup>2 \<le> 1"
    by (rule haversine_range)
  have e: "(?v - ?u) / 2 = (lat2 - lat1) * (pi / 180) / 2"
    by (simp add: left_diff_distrib)
  show ?thesis
    using r unfolding e
    by (simp add: calculateDistance_def toRadians_def Math_PI_def Let_def power2_eq_square
          algebra_simps)
qed

text \<open>Two distances in closed form: a point to itself, and a quarter of a great circle.\<close>

lemma calculateDistance_same:
  "calculateDistance (Num a) (Num b) (Num a) (Num b) = Num 0"
  by (simp add: calculateDistance_def toRadians_def Math_PI_def Let_def atan2_def)

lemma atan2_diag: "0 < x \<Longrightarrow> atan2 x x = pi / 4"
  by (simp add: atan2_def arctan_one)

lemma calculateDistance_quarter:
  "calculateDistance (Num 45) (Num 10) (Num (- 45)) (Num 10) = Num (3959 * pi / 2)"
proof -
  have half: "js_div (toRadians (js_sub (Num (- 45)) (Num 45))) (Num 2) = Num (- (pi / 4))"
    by (simp add: toRadians_def Math_PI_def)
  have zero: "js_div (toRadians (js_sub (Num 10) (Num 10))) (Num 2) = Num 0"
    by (simp add: toRadians_def Math_PI_def)
  have sq: "sin (pi / 4) * sin (pi / 4) = 1 / 2"
    by (simp add: sin_45)
  have a: "js_add
             (js_mul (Math_sin (Num (- (pi / 4)))) (Math_sin (Num (- (pi / 4)))))
             (js_mul
               (js_mul
                 (js_mul (Math_cos (toRadians (Num 45))) (Math_cos (toRadians (Num (- 45)))))
                 (Math_sin (Num 0)))
               (Math_sin (Num 0))) = Num (1 / 2)"
    using sq by (simp add: toRadians_def Math_PI_def)
  have c: "Math_atan2 (Math_sqrt (Num (1 / 2))) (Math_sqrt (js_sub (Num 1) (Num (1 / 2))))
             = Num (pi / 4)"
    by (simp add: atan2_diag)
  show ?thesis
    unfolding calculateDistance_def Let_def half zero a c
    by simp
qed

subsection \<open>Address formatter\<close>

text \<open>
  Claim C1 as stated fails on the code: a key that is present with the empty string as
  its value is skipped by the truthiness test, whereas the claim concatenates the value
  of every key that is present. With house number \<open>""\<close> and street \<open>"Main St"\<close> the code
  returns \<open>"Main St"\<close> and the claim \<open>", Main St"\<close>.
\<close>

theorem formatAddress_empty_value_counterexample:
  "formatAddress (Some [''addr:housenumber'' \<mapsto> [], ''addr:street'' \<mapsto> ''Main St''])
     = Some ''Main St'' \<and>
   formatAddress_spec (Some [''addr:housenumber'' \<mapsto> [], ''addr:street'' \<mapsto> ''Main St''])
     = Some '', Main St'' \<and>
   formatAddress (Some [''addr:housenumber'' \<mapsto> [], ''addr:street'' \<mapsto> ''Main St''])
     \<noteq> formatAddress_spec (Some [''addr:housenumber'' \<mapsto> [], ''addr:street'' \<mapsto> ''Main St''])"
  by (simp add: formatAddress_def formatAddress_spec_def address_keys_def push_if_truthy_def)

text \<open>
  Claim C1, amended. \<^verbatim>\<open>formatAddress\<close> returns absent when the tags are absent;
  otherwise it concatenates, in the fixed order house number, street, city, exactly
  those of the three address keys that are present with a non-empty value, joined by a
  comma and a space, and returns absent when there is none; house number \<open>"5"\<close> and
  street \<open>"Main St"\<close> give \<open>"5, Main St"\<close>.
\<close>

theorem formatAddress_nonempty_keys:
  "formatAddress None = None \<and>
   formatAddress (Some t) =
     (let present = List.map_filter (nonempty_value t) address_keys
      in if present = [] then None else Some (join '', '' present)) \<and>
   formatAddress (Some [''addr:housenumber'' \<mapsto> ''5'', ''addr:street'' \<mapsto> ''Main St''])
     = Some ''5, Main St''"
  by (simp add: formatAddress_def address_keys_def push_if_truthy_def nonempty_value_def
        Let_def split: option.splits)

text \<open>Where no address key has an empty value, the code is the specification's formatter.\<close>

lemma formatAddress_agrees_with_spec:
  assumes "\<forall>k \<in> set address_keys. t k \<noteq> Some []"
  shows "formatAddress (Some t) = formatAddress_spec (Some t)"
  using assms
  by (simp add: formatAddress_def formatAddress_spec_def address_keys_def push_if_truthy_def
        Let_def split: option.splits)

subsection \<open>Station fetcher: the representative coordinate\<close>

text \<open>
  A centroid with non-zero latitude and longitude is the station's coordinate, and an
  element without a centroid has its own coordinate; the distance is the distance
  calculator applied to the query coordinate and that coordinate.
\<close>

lemma station_of_element_centroid:
  assumes "el_center element = Some c" and "truthy_num (c_lat c)" and "truthy_num (c_lon c)"
  shows "st_lat (station_of_element lat lng element) = c_lat c \<and>
         st_lng (station_of_element lat lng element) = c_lon c \<and>
         st_distance (station_of_element lat lng element) =
           calculateDistance lat lng (ToNumber (c_lat c)) (ToNumber (c_lon c))"
  using assms by (simp add: station_of_element_def js_or_def opt_center_def Let_def)

lemma station_of_element_own:
  assumes "el_center element = None"
  shows "st_lat (station_of_element lat lng element) = el_lat element \<and>
         st_lng (station_of_element lat lng element) = el_lon element \<and>
         st_distance (station_of_element lat lng element) =
           calculateDistance lat lng (ToNumber (el_lat element)) (ToNumber (el_lon element))"
  using assms by (simp add: station_of_element_def js_or_def opt_center_def Let_def)

text \<open>
  Claim C2, at a way whose centroid lies on the equator (latitude 0, longitude 10) and
  which has no coordinate of its own, queried from \<open>(45, 10)\<close>. The centroid is present,
  yet the station's latitude is \<^verbatim>\<open>undefined\<close>, not 0, because \<^verbatim>\<open>0 || element.lat\<close>
  falls through to the element's own latitude; the longitude is the centroid's, and the
  distance is \<open>NaN\<close>, not the distance to the centroid, which is a number.
\<close>

theorem station_of_element_equator_way:
  "el_center equator_way = Some \<lparr> c_lat = Some (Num 0), c_lon = Some (Num 10) \<rparr> \<and>
   st_lat (station_of_element (Num 45) (Num 10) equator_way) = None \<and>
   st_lng (station_of_element (Num 45) (Num 10) equator_way) = Some (Num 10) \<and>
   st_distance (station_of_element (Num 45) (Num 10) equator_way) = NaN \<and>
   st_distance (station_of_element (Num 45) (Num 10) equator_way)
     \<noteq> calculateDistance (Num 45) (Num 10) (Num 0) (Num 10)"
proof -
  obtain d where "calculateDistance (Num 45) (Num 10) (Num 0) (Num 10) = Num d"
    using calculateDistance_is_number by blast
  then show ?thesis
    by (simp add: station_of_element_def js_or_def opt_center_def Let_def equator_way_def
          calculateDistance_NaN)
qed

text \<open>
  The distance of a station is a number whenever the query coordinate is and the
  station's resolved latitude and longitude are.
\<close>

lemma st_distance_is_number:
  assumes "st_lat (station_of_element (Num lat) (Num lng) element) = Some (Num a)"
    and "st_lng (station_of_element (Num lat) (Num lng) element) = Some (Num b)"
  shows "\<exists>d. st_distance (station_of_element (Num lat) (Num lng) element) = Num d"
  using assms calculateDistance_is_number [of lat lng a b]
  by (simp add: station_of_element_def Let_def)

subsection \<open>Station fetcher: the order of the result\<close>

lemma Array_sort_Nil: "Array_sort comparefn [] = []"
  by (simp add: Array_sort_def)

lemma Array_sort_Cons:
  "Array_sort comparefn (x # xs) = sort_insert comparefn x (Array_sort comparefn xs)"
  by (simp add: Array_sort_def)

lemma set_sort_insert: "set (sort_insert comparefn x xs) = insert x (set xs)"
  by (induction xs) auto

lemma set_Array_sort: "set (Array_sort comparefn xs) = set xs"
  by (induction xs) (simp_all add: Array_sort_Nil Array_sort_Cons set_sort_insert)

lemma length_sort_insert: "length (sort_insert comparefn x xs) = Suc (length xs)"
  by (induction xs) auto

lemma length_Array_sort: "length (Array_sort comparefn xs) = length xs"
  by (induction xs) (simp_all add: Array_sort_Nil Array_sort_Cons length_sort_insert)

text \<open>On numbers, the comparator \<^verbatim>\<open>a - b\<close> is positive exactly when \<open>a\<close> is not below \<open>b\<close>.\<close>

lemma SortCompare_difference:
  "key x \<noteq> NaN \<Longrightarrow> key y \<noteq> NaN \<Longrightarrow>
   (0 < SortCompare (\<lambda>a b. js_sub (key a) (key b)) x y) = (\<not> js_le (key x) (key y))"
  by (cases "key x"; cases "key y") (auto simp add: SortCompare_def)

lemma sorted_sort_insert:
  assumes "key x \<noteq> NaN" and "\<forall>y \<in> set xs. key y \<noteq> NaN"
    and "sorted_wrt (\<lambda>a b. js_le (key a) (key b)) xs"
  shows "sorted_wrt (\<lambda>a b. js_le (key a) (key b))
           (sort_insert (\<lambda>a b. js_sub (key a) (key b)) x xs)"
  using assms
proof (induction xs)
  case Nil
  then show ?case by simp
next
  case (Cons y ys)
  show ?case
  proof (cases "js_le (key x) (key y)")
    case True
    then have "\<forall>z \<in> set ys. js_le (key x) (key z)"
      using Cons.prems(3) by (auto intro: js_le_trans)
    with True Cons.prems show ?thesis
      by (simp add: SortCompare_difference)
  next
    case False
    then have "js_le (key y) (key x)"
      using Cons.prems by (simp add: js_le_total)
    with False Cons show ?thesis
      by (auto simp add: SortCompare_difference set_sort_insert)
  qed
qed

lemma sorted_Array_sort:
  assumes "\<forall>y \<in> set xs. key y \<noteq> NaN"
  shows "sorted_wrt (\<lambda>a b. js_le (key a) (key b))
           (Array_sort (\<lambda>a b. js_sub (key a) (key b)) xs)"
  using assms
  by (induction xs)
     (simp_all add: Array_sort_Nil Array_sort_Cons sorted_sort_insert set_Array_sort)

text \<open>
  Stability: an inserted element only passes elements of a strictly smaller key, so the
  elements of any one key keep their order.
\<close>

lemma filter_sort_insert:
  assumes "key x \<noteq> NaN" and "\<forall>y \<in> set xs. key y \<noteq> NaN"
  shows "filter (\<lambda>s. key s = k) (sort_insert (\<lambda>a b. js_sub (key a) (key b)) x xs) =
         filter (\<lambda>s. key s = k) (x # xs)"
  using assms
proof (induction xs)
  case Nil
  then show ?case by simp
next
  case (Cons y ys)
  show ?case
  proof (cases "js_le (key x) (key y)")
    case True
    with Cons.prems show ?thesis by (simp add: SortCompare_difference)
  next
    case False
    then have "key x \<noteq> key y"
      using Cons.prems by (cases "key y") auto
    with False Cons show ?thesis
      by (auto simp add: SortCompare_difference)
  qed
qed

lemma filter_Array_sort:
  assumes "\<forall>y \<in> set xs. key y \<noteq> NaN"
  shows "filter (\<lambda>s. key s = k) (Array_sort (\<lambda>a b. js_sub (key a) (key b)) xs) =
         filter (\<lambda>s. key s = k) xs"
  using assms
  by (induction xs)
     (simp_all add: Array_sort_Nil Array_sort_Cons filter_sort_insert set_Array_sort)

lemma fetchNearbyGasStations_success:
  assumes "fetch (overpass_query lat lng (default_radius radius)) = Response True (Json data)"
    and "op_elements data = Some elements"
  shows "fetchNearbyGasStations fetch lat lng radius =
           Array_sort (\<lambda>a b. js_sub (st_distance a) (st_distance b))
             (map (station_of_element lat lng) elements)"
  using assms by (simp add: fetchNearbyGasStations_def fetchNearbyGasStations_try_def)

lemma fetchNearbyGasStations_cases:
  "fetchNearbyGasStations fetch lat lng radius = [] \<or>
   (\<exists>data elements. fetch (overpass_query lat lng (default_radius radius)) = Response True (Json data) \<and>
       op_elements data = Some elements)"
  by (auto simp add: fetchNearbyGasStations_def fetchNearbyGasStations_try_def
        split: fetch_result.splits json_result.splits option.splits)

text \<open>The example elements, seen from the query coordinate \<open>(45, 10)\<close>.\<close>

lemma example_distances:
  "st_distance (station_of_element (Num 45) (Num 10) far_node) = Num (3959 * pi / 2)"
  "st_distance (station_of_element (Num 45) (Num 10) bare_element) = NaN"
  "st_distance (station_of_element (Num 45) (Num 10) near_node) = Num 0"
  "st_distance (station_of_element (Num 45) (Num 10) near_way) = Num 0"
  by (simp_all add: station_of_element_def js_or_def opt_center_def Let_def
        far_node_def bare_element_def near_node_def near_way_def
        calculateDistance_quarter calculateDistance_same calculateDistance_NaN)

lemma example_ids:
  "st_id (station_of_element lat lng far_node) = 1"
  "st_id (station_of_element lat lng bare_element) = 2"
  "st_id (station_of_element lat lng near_node) = 3"
  "st_id (station_of_element lat lng near_way) = 4"
  by (simp_all add: station_of_element_def Let_def
        far_node_def bare_element_def near_node_def near_way_def)

lemma fetch_overpass_returning:
  "fetchNearbyGasStations (overpass_returning elements) lat lng radius =
     Array_sort (\<lambda>a b. js_sub (st_distance a) (st_distance b))
       (map (station_of_element lat lng) elements)"
  by (simp add: fetchNearbyGasStations_def fetchNearbyGasStations_try_def
        overpass_returning_def)

text \<open>
  A sequence of two or more elements, one of them with the key \<open>NaN\<close>, is not ascending
  in any order: whichever permutation a sort produces, the outcome is the same.
\<close>

lemma not_sorted_with_NaN:
  assumes "x \<in> set xs" and "key x = NaN" and "2 \<le> length xs"
  shows "\<not> sorted_wrt (\<lambda>a b. js_le (key a) (key b)) xs"
proof
  assume sorted: "sorted_wrt (\<lambda>a b. js_le (key a) (key b)) xs"
  from assms(1) obtain i where i: "i < length xs" "xs ! i = x"
    by (auto simp add: in_set_conv_nth)
  show False
  proof (cases "i = 0")
    case True
    with i assms(3) have "0 < (1::nat)" "1 < length xs" "xs ! 0 = x"
      by simp_all
    with sorted have "js_le (key x) (key (xs ! 1))"
      using sorted_wrt_nth_less [of "\<lambda>a b. js_le (key a) (key b)" xs 0 1] by simp
    with assms(2) show False by simp
  next
    case False
    with i sorted have "js_le (key (xs ! 0)) (key x)"
      using sorted_wrt_nth_less [of "\<lambda>a b. js_le (key a) (key b)" xs 0 i] by simp
    with assms(2) show False by simp
  qed
qed

text \<open>
  Claim C4 as stated fails on the code. The response lists a node a quarter of a great
  circle away, an element without any coordinate, and a node at the query coordinate.
  The element without coordinate gets the distance \<open>NaN\<close>, the comparator yields \<open>NaN\<close>
  against it, and the result keeps the upstream order: the distances are
  \<open>3959 * pi / 2\<close>, \<open>NaN\<close>, \<open>0\<close>, which is not ascending.
\<close>

theorem fetchNearbyGasStations_unsorted_counterexample:
  "map st_id (fetchNearbyGasStations (overpass_returning [far_node, bare_element, near_node])
                (Num 45) (Num 10) None) = [1, 2, 3] \<and>
   map st_distance (fetchNearbyGasStations (overpass_returning [far_node, bare_element, near_node])
                (Num 45) (Num 10) None) = [Num (3959 * pi / 2), NaN, Num 0] \<and>
   \<not> sorted_wrt (\<lambda>a b. js_le (st_distance a) (st_distance b))
        (fetchNearbyGasStations (overpass_returning [far_node, bare_element, near_node])
           (Num 45) (Num 10) None)"
  by (simp add: fetch_overpass_returning Array_sort_def SortCompare_def example_distances
        example_ids)

text \<open>
  Claim C4, amended. For every query and every response of the point-of-interest
  service for which no returned station has the distance \<open>NaN\<close>, the result is sorted in
  ascending order of distance, and the stations of any one distance keep the order in
  which the service listed their elements.
\<close>

theorem fetchNearbyGasStations_sorted_stable:
  assumes "\<forall>s \<in> set (fetchNearbyGasStations fetch lat lng radius). st_distance s \<noteq> NaN"
  shows "sorted_wrt (\<lambda>a b. js_le (st_distance a) (st_distance b))
           (fetchNearbyGasStations fetch lat lng radius) \<and>
         (\<forall>data elements k.
            fetch (overpass_query lat lng (default_radius radius)) = Response True (Json data) \<longrightarrow>
            op_elements data = Some elements \<longrightarrow>
              filter (\<lambda>s. st_distance s = k) (fetchNearbyGasStations fetch lat lng radius) =
              filter (\<lambda>s. st_distance s = k) (map (station_of_element lat lng) elements))"
proof (cases "fetchNearbyGasStations fetch lat lng radius = []")
  case True
  then show ?thesis
    by (auto simp add: fetchNearbyGasStations_success dest!: arg_cong [where f = length]
          simp add: length_Array_sort)
next
  case False
  then obtain data elements where
    resp: "fetch (overpass_query lat lng (default_radius radius)) = Response True (Json data)"
    and els: "op_elements data = Some elements"
    using fetchNearbyGasStations_cases [of fetch lat lng radius] by auto
  have eq: "fetchNearbyGasStations fetch lat lng radius =
              Array_sort (\<lambda>a b. js_sub (st_distance a) (st_distance b))
                (map (station_of_element lat lng) elements)"
    using resp els by (rule fetchNearbyGasStations_success)
  have nonan: "\<forall>s \<in> set (map (station_of_element lat lng) elements). st_distance s \<noteq> NaN"
    using assms unfolding eq set_Array_sort .
  show ?thesis
    using resp els sorted_Array_sort [OF nonan] filter_Array_sort [OF nonan]
    by (simp add: eq)
qed

text \<open>
  The amended claim at a response that lists the far node, then the node and the way
  at the query coordinate: the two stations at distance 0 come first, the node before
  the way as upstream, and the far node last.
\<close>

theorem fetchNearbyGasStations_sorted_stable_witness:
  "sorted_wrt (\<lambda>a b. js_le (st_distance a) (st_distance b))
     (fetchNearbyGasStations (overpass_returning [far_node, near_node, near_way])
        (Num 45) (Num 10) None) \<and>
   map st_id (filter (\<lambda>s. st_distance s = Num 0)
     (fetchNearbyGasStations (overpass_returning [far_node, near_node, near_way])
        (Num 45) (Num 10) None)) = [3, 4]"
proof -
  let ?fetch = "overpass_returning [far_node, near_node, near_way]"
  have numbers:
    "\<forall>s \<in> set (fetchNearbyGasStations ?fetch (Num 45) (Num 10) None). st_distance s \<noteq> NaN"
    by (simp add: fetch_overpass_returning set_Array_sort example_distances)
  have response:
    "?fetch (overpass_query (Num 45) (Num 10) (default_radius None)) =
       Response True (Json \<lparr> op_elements = Some [far_node, near_node, near_way] \<rparr>)"
    by (simp add: overpass_returning_def)
  have elements:
    "op_elements \<lparr> op_elements = Some [far_node, near_node, near_way] \<rparr> =
       Some [far_node, near_node, near_way]"
    by simp
  note sorted_stable = fetchNearbyGasStations_sorted_stable [OF numbers]
  have "filter (\<lambda>s. st_distance s = Num 0)
          (fetchNearbyGasStations ?fetch (Num 45) (Num 10) None) =
        filter (\<lambda>s. st_distance s = Num 0)
          (map (station_of_element (Num 45) (Num 10)) [far_node, near_node, near_way])"
    using sorted_stable response elements by blast
  then have "map st_id (filter (\<lambda>s. st_distance s = Num 0)
               (fetchNearbyGasStations ?fetch (Num 45) (Num 10) None)) = [3, 4]"
    by (simp add: example_distances example_ids)
  with sorted_stable show ?thesis
    by simp
qed

subsection \<open>Failures of the two fetchers\<close>

text \<open>
  Claim C5. Whatever the service does, a failure of any category gives the "no result"
  value: a transport failure (rejected request or non-success status), a parse failure
  and a malformed payload make \<^verbatim>\<open>fetchNearbyGasStations\<close> return the empty sequence and
  \<^verbatim>\<open>fetchRoute\<close> return absent; and every error raised inside either function, whatever
  it is, ends as that value, so that none reaches the caller.
\<close>

theorem failures_collapse:
  "(\<not> transport_success (fetch1 (overpass_query lat lng (default_radius radius))) \<or>
    parse_failure (fetch1 (overpass_query lat lng (default_radius radius))) \<or>
    malformed_overpass (fetch1 (overpass_query lat lng (default_radius radius)))
      \<longrightarrow> fetchNearbyGasStations fetch1 lat lng radius = []) \<and>
   (\<not> transport_success (fetch2 (route_request start dest)) \<or>
    parse_failure (fetch2 (route_request start dest)) \<or>
    malformed_osrm (fetch2 (route_request start dest))
      \<longrightarrow> fetchRoute fetch2 start dest = None) \<and>
   (\<forall>e. fetchNearbyGasStations_try fetch1 lat lng radius = Inl e
      \<longrightarrow> fetchNearbyGasStations fetch1 lat lng radius = []) \<and>
   (\<forall>e. fetchRoute_try fetch2 start dest = Inl e \<longrightarrow> fetchRoute fetch2 start dest = None)"
  by (auto simp add: fetchNearbyGasStations_def fetchNearbyGasStations_try_def
        fetchRoute_def fetchRoute_try_def transport_success_def parse_failure_def
        malformed_overpass_def malformed_osrm_def payload_def route_shape_ok_def js_index_def
        split: fetch_result.splits json_result.splits option.splits list.splits if_splits)

text \<open>
  The categories are all there is: the station fetcher raises exactly on a failure of
  one of the three categories, and the route fetcher exactly on one of them or on a
  response that reports no route.
\<close>

lemma fetchNearbyGasStations_try_raises_iff:
  "(\<exists>e. fetchNearbyGasStations_try fetch lat lng radius = Inl e) =
   (\<not> transport_success (fetch (overpass_query lat lng (default_radius radius))) \<or>
    parse_failure (fetch (overpass_query lat lng (default_radius radius))) \<or>
    malformed_overpass (fetch (overpass_query lat lng (default_radius radius))))"
  by (auto simp add: fetchNearbyGasStations_try_def transport_success_def parse_failure_def
        malformed_overpass_def payload_def
        split: fetch_result.splits json_result.splits option.splits if_splits)


text \<open>
  One response of each category: a rejected request, a non-success status, a body that
  is not JSON, a payload without \<^verbatim>\<open>elements\<close>, and a routing payload whose only route has
  no geometry.
\<close>

theorem failures_collapse_witness:
  "fetchNearbyGasStations (\<lambda>query. NetworkFailure) (Num 45) (Num 10) None = [] \<and>
   fetchNearbyGasStations (\<lambda>query. Response False InvalidJson) (Num 45) (Num 10) None = [] \<and>
   fetchNearbyGasStations (\<lambda>query. Response True InvalidJson) (Num 45) (Num 10) None = [] \<and>
   fetchNearbyGasStations (\<lambda>query. Response True (Json \<lparr> op_elements = None \<rparr>))
     (Num 45) (Num 10) None = [] \<and>
   fetchRoute (osrm_returning ''Ok'' [route_without_geometry])
     \<lparr> loc_lat = Num 50, loc_lng = Num 10 \<rparr> \<lparr> loc_lat = Num 51, loc_lng = Num 11 \<rparr> = None"
  using
    failures_collapse [of "\<lambda>query. NetworkFailure" "Num 45" "Num 10" None]
    failures_collapse [of "\<lambda>query. Response False InvalidJson" "Num 45" "Num 10" None]
    failures_collapse [of "\<lambda>query. Response True InvalidJson" "Num 45" "Num 10" None]
    failures_collapse [of "\<lambda>query. Response True (Json \<lparr> op_elements = None \<rparr>)"
      "Num 45" "Num 10" None]
    failures_collapse [of _ _ _ _ "osrm_returning ''Ok'' [route_without_geometry]"
      "\<lparr> loc_lat = Num 50, loc_lng = Num 10 \<rparr>" "\<lparr> loc_lat = Num 51, loc_lng = Num 11 \<rparr>"]
  by (simp add: transport_success_def parse_failure_def malformed_overpass_def
        malformed_osrm_def payload_def route_shape_ok_def osrm_returning_def
        route_without_geometry_def)

subsection \<open>Route fetcher\<close>







subsection \<open>Nearest selector\<close>

text \<open>
  Claim C7. For a sequence of stations the nearest selector returns absent when the
  sequence is empty and its first element otherwise, whatever the elements and their
  order are: it neither sorts nor validates.
\<close>

theorem findNearestStation_first:
  "findNearestStation (Some []) userLocation = None \<and>
   findNearestStation (Some (s # rest)) userLocation = Some s"
  by (simp add: findNearestStation_def js_index_def)

text \<open>
  Claim C10. The result of the nearest selector does not depend on its second argument:
  any two user locations give the same result for the same stations.
\<close>

theorem findNearestStation_ignores_userLocation:
  "findNearestStation stations u1 = findNearestStation stations u2"
  by (simp add: findNearestStation_def)

subsection \<open>Rounding to a double\<close>

text \<open>Inside one binade the grid of doubles is known, and the rounding is a computation.\<close>

lemma binade_eq:
  assumes "2 powi k \<le> \<bar>x\<bar>" and "\<bar>x\<bar> < 2 powi (k + 1)" and "- 1022 \<le> k"
  shows "binade x = k"
proof -
  have p: "0 < (2::real) powi k"
    by simp
  with assms(1) have pos: "0 < \<bar>x\<bar>"
    by linarith
  have lo: "2 powr real_of_int k = (2::real) powi k"
    by (rule powr_real_of_int') simp_all
  have hi: "2 powr real_of_int (k + 1) = (2::real) powi (k + 1)"
    by (rule powr_real_of_int') simp_all
  have a: "2 powr real_of_int k \<le> \<bar>x\<bar>"
    using assms(1) by (simp only: lo)
  have b: "\<bar>x\<bar> < 2 powr real_of_int (k + 1)"
    using assms(2) by (simp only: hi)
  have "\<lfloor>log 2 \<bar>x\<bar>\<rfloor> = k"
  proof (rule iffD2 [OF floor_log_eq_powr_iff])
    show "0 < \<bar>x\<bar>" by (rule pos)
    show "(1::real) < 2" by simp
    show "2 powr real_of_int k \<le> \<bar>x\<bar> \<and> \<bar>x\<bar> < 2 powr real_of_int (k + 1)"
      by (rule conjI [OF a b])
  qed
  with assms(3) show ?thesis
    by (simp add: binade_def)
qed

lemma round_double_in_binade:
  assumes "2 powi k \<le> \<bar>x\<bar>" and "\<bar>x\<bar> < 2 powi (k + 1)" and "- 1022 \<le> k"
  shows "round_double x = of_int (round_half_even (x / 2 powi (k - 52))) * 2 powi (k - 52)"
proof -
  have "0 < (2::real) powi k"
    by simp
  with assms(1) have "0 < \<bar>x\<bar>"
    by linarith
  then have "x \<noteq> 0"
    by auto
  then show ?thesis
    by (simp add: round_double_def binade_eq [OF assms] Let_def)
qed


lemma double_0_1: "round_double 0.1 = 3602879701896397 / 2 ^ 55"
  by (subst round_double_in_binade [of "- 4"]) (simp_all add: round_half_even_def)

lemma double_2_5: "round_double 2.5 = 2.5"
  by (subst round_double_in_binade [of 1]) (simp_all add: round_half_even_def)



lemma double_143_5_feet: "round_double (1958383474326261 / 2 ^ 56 * 5280) = 143.5"
  by (subst round_double_in_binade [of 7]) (simp_all add: round_half_even_def)

lemma round_half_even_nonneg: "0 \<le> q \<Longrightarrow> 0 \<le> round_half_even q"
  by (simp add: round_half_even_def Let_def)

lemma round_half_even_le:
  assumes "q \<le> of_int N"
  shows "round_half_even q \<le> N"
proof (cases "q = of_int N")
  case True
  then show ?thesis
    by (simp add: round_half_even_def Let_def)
next
  case False
  with assms have "q < of_int N" by simp
  then have "\<lfloor>q\<rfloor> < N"
    by (simp add: floor_less_iff)
  then show ?thesis
    by (simp add: round_half_even_def Let_def)
qed

lemma binade_le:
  assumes "x \<noteq> 0" and "\<bar>x\<bar> \<le> 2 ^ 10"
  shows "binade x \<le> 10"
proof -
  have "log 2 \<bar>x\<bar> \<le> log 2 (2 ^ 10)"
    using assms by (intro log_mono) simp_all
  also have "log 2 (2 ^ 10) = (10::real)"
    using log_pow_cancel [of "2::real" 10] by simp
  finally have "\<lfloor>log 2 \<bar>x\<bar>\<rfloor> \<le> 10"
    by (simp add: floor_le_iff)
  then show ?thesis
    by (simp add: binade_def)
qed

lemma round_double_nonneg: "0 \<le> x \<Longrightarrow> 0 \<le> round_double x"
  by (simp add: round_double_def Let_def round_half_even_nonneg)

lemma round_double_le_1024:
  assumes "0 \<le> x" and "x \<le> 2 ^ 10"
  shows "round_double x \<le> 2 ^ 10"
proof (cases "x = 0")
  case True
  then show ?thesis by (simp add: round_double_def)
next
  case False
  define k where "k = binade x"
  have k: "k \<le> 10"
    unfolding k_def using False assms by (intro binade_le) simp_all
  define N :: int where "N = 2 ^ nat (62 - k)"
  have N: "real_of_int N = 2 powi (62 - k)"
    using k by (simp add: N_def power_int_def)
  have split: "(2::real) powi (62 - k) * 2 powi (k - 52) = 2 ^ 10"
    using power_int_add [of "2::real" "62 - k" "k - 52"] by simp
  have ulp: "0 < (2::real) powi (k - 52)"
    by simp
  have "x / 2 powi (k - 52) \<le> real_of_int N"
    using assms(2) ulp split unfolding N by (simp add: field_simps)
  then have "round_half_even (x / 2 powi (k - 52)) \<le> N"
    by (rule round_half_even_le)
  then have "real_of_int (round_half_even (x / 2 powi (k - 52))) * 2 powi (k - 52)
               \<le> real_of_int N * 2 powi (k - 52)"
    using ulp by (intro mult_right_mono) simp_all
  also have "\<dots> = 2 ^ 10"
    unfolding N by (rule split)
  finally show ?thesis
    using False by (simp add: round_double_def Let_def k_def)
qed


subsection \<open>Distance label\<close>




lemma formatDistance_NaN: "formatDistance sci NaN = ''NaN mi''"
  by (simp add: formatDistance_def)

text \<open>
  Below the threshold the label is the digits of the rounded feet, the feet being the
  double of the product.
\<close>

lemma formatDistance_feet:
  assumes "0 \<le> miles" and "miles < round_double 0.1"
  shows "formatDistance sci (Num miles) =
           show_nat (nat \<lfloor>round_double (miles * 5280) + 1 / 2\<rfloor>) @ '' ft''"
proof -
  have lt: "miles < 3602879701896397 / 2 ^ 55"
    using assms(2) unfolding double_0_1 .
  have "0 \<le> miles * 5280"
    using assms(1) by simp
  moreover have "miles * 5280 \<le> 2 ^ 10"
    using lt by simp
  ultimately have lo: "0 \<le> round_double (miles * 5280)"
    and hi: "round_double (miles * 5280) \<le> 2 ^ 10"
    by (simp_all only: round_double_nonneg round_double_le_1024)
  have f_lo: "0 \<le> \<lfloor>round_double (miles * 5280) + 1 / 2\<rfloor>"
    using lo by simp
  have f_hi: "\<lfloor>round_double (miles * 5280) + 1 / 2\<rfloor> \<le> 1024"
    using hi by (simp add: floor_le_iff)
  have small: "\<bar>real_of_int \<lfloor>round_double (miles * 5280) + 1 / 2\<rfloor>\<bar> < 2 ^ 53"
    using f_lo f_hi by simp
  show ?thesis
    using assms(2) f_lo small by (simp add: formatDistance_def)
qed


text \<open>
  The double 0.0271780303030303: the exact product with 5280 is below 143.5, the double
  of the product is 143.5, and the label says 144 feet.
\<close>

lemma formatDistance_halfway_product:
  "formatDistance sci (Num (1958383474326261 / 2 ^ 56)) = ''144 ft''"
proof -
  have "formatDistance sci (Num (1958383474326261 / 2 ^ 56)) =
          show_nat (nat \<lfloor>round_double (1958383474326261 / 2 ^ 56 * 5280) + 1 / 2\<rfloor>) @ '' ft''"
    by (rule formatDistance_feet) (simp_all add: double_0_1)
  then show ?thesis
    unfolding double_143_5_feet by (simp add: show_nat.simps digit_def)
qed



end
